theory Spec2Isabelle
  imports Complex_Main
begin

section \<open>The cart store of the Lorcana card shop\<close>

text \<open>
  This theory embeds \<^verbatim>\<open>lorcana/src/context/CartContext.jsx\<close>: the state held by
  \<^verbatim>\<open>CartProvider\<close>, its two effects (load from and save to \<^verbatim>\<open>localStorage\<close>), the cart
  operations and the pricing functions.

  Conventions of the embedding.
  \<^item> A JavaScript number is a real or \<^verbatim>\<open>NaN\<close>. The code never checks that a number is an
    integer or that it is a number at all, so a quantity can be 2.5 or \<^verbatim>\<open>NaN\<close>. The rounding
    of IEEE doubles and the two infinities are not modelled.
  \<^item> \<^verbatim>\<open>Array.prototype.reduce\<close> is \<^const>\<open>foldl\<close>, \<^verbatim>\<open>map\<close> is \<^const>\<open>map\<close>, \<^verbatim>\<open>filter\<close> is
    \<^const>\<open>filter\<close>, \<^verbatim>\<open>find\<close> is \<^const>\<open>List.find\<close>.
  \<^item> A state update \<^verbatim>\<open>setCartItems\<close> is followed by the effect that depends on
    \<^verbatim>\<open>cartItems\<close>; the operations below return the state after that effect has run.
    Each effect runs once per mount and once per change of \<^verbatim>\<open>cartItems\<close>; the repeated
    invocation of effects in React's development-only strict mode is not modelled.
\<close>

subsection \<open>Numbers\<close>

datatype js_number = Num real | NaN

text \<open>Addition and multiplication give \<^verbatim>\<open>NaN\<close> as soon as an operand is \<^verbatim>\<open>NaN\<close>; the literal
  \<^verbatim>\<open>0\<close> is \<open>Num 0\<close>.\<close>

instantiation js_number :: comm_monoid_add
begin

definition zero_js_number :: js_number where
  "zero_js_number = Num 0"

definition plus_js_number :: "js_number \<Rightarrow> js_number \<Rightarrow> js_number" where
  "plus_js_number a b =
     (case a of
        NaN \<Rightarrow> NaN
      | Num x \<Rightarrow> (case b of NaN \<Rightarrow> NaN | Num y \<Rightarrow> Num (x + y)))"

instance
proof
  fix a b c :: js_number
  show "a + b + c = a + (b + c)"
    by (cases a; cases b; cases c) (simp_all add: plus_js_number_def)
  show "a + b = b + a"
    by (cases a; cases b) (simp_all add: plus_js_number_def)
  show "0 + a = a"
    by (cases a) (simp_all add: plus_js_number_def zero_js_number_def)
qed

end

instantiation js_number :: times
begin

definition times_js_number :: "js_number \<Rightarrow> js_number \<Rightarrow> js_number" where
  "times_js_number a b =
     (case a of
        NaN \<Rightarrow> NaN
      | Num x \<Rightarrow> (case b of NaN \<Rightarrow> NaN | Num y \<Rightarrow> Num (x * y)))"

instance ..

end

text \<open>The comparisons \<^verbatim>\<open><\<close> and \<^verbatim>\<open><=\<close>: false as soon as an operand is \<^verbatim>\<open>NaN\<close>.\<close>

fun js_less :: "js_number \<Rightarrow> js_number \<Rightarrow> bool" where
  "js_less (Num x) (Num y) \<longleftrightarrow> x < y"
| "js_less _ _ \<longleftrightarrow> False"

fun js_le :: "js_number \<Rightarrow> js_number \<Rightarrow> bool" where
  "js_le (Num x) (Num y) \<longleftrightarrow> x \<le> y"
| "js_le _ _ \<longleftrightarrow> False"

text \<open>The numbers that count as false in a condition and under \<^verbatim>\<open>||\<close>: 0 and \<^verbatim>\<open>NaN\<close>.\<close>

fun falsy :: "js_number \<Rightarrow> bool" where
  "falsy (Num x) \<longleftrightarrow> x = 0"
| "falsy NaN \<longleftrightarrow> True"

text \<open>The numbers that are integers (\<^verbatim>\<open>Number.isInteger\<close>).\<close>

fun is_integer :: "js_number \<Rightarrow> bool" where
  "is_integer (Num x) \<longleftrightarrow> of_int \<lfloor>x\<rfloor> = x"
| "is_integer NaN \<longleftrightarrow> False"

subsection \<open>Data\<close>

text \<open>A catalog card as \<^verbatim>\<open>addToCart\<close> reads it: \<^verbatim>\<open>_id\<close>, \<^verbatim>\<open>Name\<close>, \<^verbatim>\<open>Image\<close> and the optional
  \<^verbatim>\<open>Price\<close> (\<open>None\<close> when the property is undefined or null).\<close>

record card =
  card_id :: string
  Name :: string
  Image :: string
  Price :: "js_number option"

text \<open>A line item of the cart: \<^verbatim>\<open>{id, name, image, price, quantity, premiumPackaging}\<close>. The
  fields \<^verbatim>\<open>id\<close> and \<^verbatim>\<open>image\<close> are \<open>item_id\<close> and \<open>item_image\<close> here, and the card's \<^verbatim>\<open>_id\<close> is
  \<open>card_id\<close>.\<close>

record line_item =
  item_id :: string
  name :: string
  item_image :: string
  price :: js_number
  quantity :: js_number
  premiumPackaging :: bool

subsection \<open>The stored text and JSON\<close>

text \<open>The values that JSON texts denote.\<close>

datatype json =
    JNull
  | JBool bool
  | JNumber real
  | JString string
  | JArray "json list"
  | JObject "(string \<times> json) list"

text \<open>
  A text in the storage is represented by its reading under the JSON grammar: \<open>Json v\<close> is
  a text that denotes the value \<open>v\<close>, and \<open>NotJson t\<close> is the text \<open>t\<close>, which is not JSON
  (the empty text among them). Printing a value and reading the print gives the value
  back; that is the part of \<^verbatim>\<open>JSON.stringify\<close> and \<^verbatim>\<open>JSON.parse\<close> which this representation
  takes from ECMAScript. What \<^verbatim>\<open>JSON.stringify\<close> makes of the cart before printing is
  modelled below.
\<close>

datatype stored_text = Json json | NotJson string

datatype js_error = SyntaxError

text \<open>A string is falsy when it is empty; the text of a JSON value is never empty.\<close>

fun empty_text :: "stored_text \<Rightarrow> bool" where
  "empty_text (NotJson t) \<longleftrightarrow> t = []"
| "empty_text (Json v) \<longleftrightarrow> False"

fun JSON_parse :: "stored_text \<Rightarrow> js_error + json" where
  "JSON_parse (Json v) = Inr v"
| "JSON_parse (NotJson t) = Inl SyntaxError"

text \<open>\<^verbatim>\<open>JSON.stringify\<close> writes a number as a JSON number, except \<^verbatim>\<open>NaN\<close>, which it writes
  as \<^verbatim>\<open>null\<close>; an object is written with its properties in the order of their creation.\<close>

fun number_to_json :: "js_number \<Rightarrow> json" where
  "number_to_json (Num x) = JNumber x"
| "number_to_json NaN = JNull"

definition item_to_json :: "line_item \<Rightarrow> json" where
  "item_to_json item =
     JObject
       [(''id'', JString (item_id item)),
        (''name'', JString (name item)),
        (''image'', JString (item_image item)),
        (''price'', number_to_json (price item)),
        (''quantity'', number_to_json (quantity item)),
        (''premiumPackaging'', JBool (premiumPackaging item))]"

definition JSON_stringify :: "line_item list \<Rightarrow> stored_text" where
  "JSON_stringify items = Json (JArray (map item_to_json items))"

text \<open>
  The value that \<^verbatim>\<open>JSON.parse\<close> returns becomes \<^verbatim>\<open>cartItems\<close> as it is. It is a cart as
  this theory types carts when it is an array of objects with the six properties of a line
  item, strings for \<^verbatim>\<open>id\<close>, \<^verbatim>\<open>name\<close> and \<^verbatim>\<open>image\<close>, numbers for \<^verbatim>\<open>price\<close> and \<^verbatim>\<open>quantity\<close> and a
  boolean for \<^verbatim>\<open>premiumPackaging\<close>.
\<close>

fun as_string :: "json \<Rightarrow> string option" where
  "as_string (JString t) = Some t"
| "as_string _ = None"

fun as_number :: "json \<Rightarrow> js_number option" where
  "as_number (JNumber x) = Some (Num x)"
| "as_number _ = None"

fun as_bool :: "json \<Rightarrow> bool option" where
  "as_bool (JBool b) = Some b"
| "as_bool _ = None"

definition as_line_item :: "json \<Rightarrow> line_item option" where
  "as_line_item v =
     (case v of
        JObject [(k1, v1), (k2, v2), (k3, v3), (k4, v4), (k5, v5), (k6, v6)] \<Rightarrow>
          if [k1, k2, k3, k4, k5, k6]
               = [''id'', ''name'', ''image'', ''price'', ''quantity'', ''premiumPackaging'']
          then
            Option.bind (as_string v1) (\<lambda>i.
            Option.bind (as_string v2) (\<lambda>n.
            Option.bind (as_string v3) (\<lambda>im.
            Option.bind (as_number v4) (\<lambda>p.
            Option.bind (as_number v5) (\<lambda>q.
            Option.bind (as_bool v6) (\<lambda>pp.
              Some \<lparr>item_id = i, name = n, item_image = im, price = p, quantity = q,
                    premiumPackaging = pp\<rparr>))))))
          else None
      | _ \<Rightarrow> None)"

definition as_line_items :: "json \<Rightarrow> line_item list option" where
  "as_line_items v =
     (case v of JArray vs \<Rightarrow> those (map as_line_item vs) | _ \<Rightarrow> None)"

text \<open>The state of \<^verbatim>\<open>CartProvider\<close> (its six \<^verbatim>\<open>useState\<close> cells) together with the
  \<^verbatim>\<open>localStorage\<close> entry under the key \<^verbatim>\<open>'lorcanaCart'\<close> (\<open>None\<close> when \<^verbatim>\<open>getItem\<close> returns null).\<close>

record cart_provider =
  cartItems :: "line_item list"
  cartCount :: js_number
  cartSubtotal :: js_number
  taxRate :: js_number
  shipping :: js_number
  premiumPackPrice :: js_number
  lorcanaCart :: "stored_text option"

subsection \<open>Effects\<close>

text \<open>The initial values passed to \<^verbatim>\<open>useState\<close>, over a given content of the storage.\<close>

definition initial_state :: "stored_text option \<Rightarrow> cart_provider" where
  "initial_state storage =
     \<lparr>cartItems = [], cartCount = Num 0, cartSubtotal = Num 0, taxRate = Num (13 / 100),
      shipping = Num (599 / 100), premiumPackPrice = Num (1999 / 100),
      lorcanaCart = storage\<rparr>"

text \<open>The second effect: it writes the cart to the storage and recomputes count and
  subtotal from \<^verbatim>\<open>cartItems\<close>.\<close>

definition save_effect :: "cart_provider \<Rightarrow> cart_provider" where
  "save_effect s =
     s\<lparr>lorcanaCart := Some (JSON_stringify (cartItems s)),
       cartCount := foldl (\<lambda>total item. total + quantity item) (Num 0) (cartItems s),
       cartSubtotal :=
         foldl (\<lambda>total item. total + price item * quantity item) (Num 0) (cartItems s)\<rparr>"

text \<open>\<^verbatim>\<open>setCartItems(f)\<close> with an updater function, followed by the effect it triggers.\<close>

definition setCartItems ::
  "(line_item list \<Rightarrow> line_item list) \<Rightarrow> cart_provider \<Rightarrow> cart_provider" where
  "setCartItems f s = save_effect (s\<lparr>cartItems := f (cartItems s)\<rparr>)"

text \<open>The first effect reads the stored text; a non-empty text (a truthy string) is parsed,
  and the result is the pending update of \<^verbatim>\<open>cartItems\<close>. An exception of \<^verbatim>\<open>JSON.parse\<close> is not
  caught.\<close>

definition load_effect :: "cart_provider \<Rightarrow> js_error + json option" where
  "load_effect s =
     (case lorcanaCart s of
        None \<Rightarrow> Inr None
      | Some storedCart \<Rightarrow>
          if empty_text storedCart then Inr None
          else (case JSON_parse storedCart of
                  Inl e \<Rightarrow> Inl e
                | Inr parsed \<Rightarrow> Inr (Some parsed)))"

text \<open>
  Mounting the provider: both effects run after the first render, in the order of the
  source, the second one still seeing the empty \<^verbatim>\<open>cartItems\<close> of that render; a pending
  update then re-renders and runs the second effect again. Mounting ends in an exception,
  in a running provider, or with a parsed value in \<^verbatim>\<open>cartItems\<close> that is no cart as this
  theory types carts (\<open>Not_line_items\<close>, with that value; the provider is not followed
  further then).
\<close>

datatype mount_result = Threw js_error | Mounted cart_provider | Not_line_items json

definition mount :: "stored_text option \<Rightarrow> mount_result" where
  "mount storage =
     (let s0 = initial_state storage in
      case load_effect s0 of
        Inl e \<Rightarrow> Threw e
      | Inr pending \<Rightarrow>
          (let s1 = save_effect s0 in
           case pending of
             None \<Rightarrow> Mounted s1
           | Some parsed \<Rightarrow>
               (case as_line_items parsed of
                  None \<Rightarrow> Not_line_items parsed
                | Some items \<Rightarrow> Mounted (setCartItems (\<lambda>_. items) s1))))"

subsection \<open>Cart operations\<close>

text \<open>In \<^verbatim>\<open>addToCart\<close> the price of a new line is \<^verbatim>\<open>card.Price || 3.99\<close>: the left operand is
  taken unless it is falsy, and the falsy values a price can have are undefined, null, the
  number 0 and \<^verbatim>\<open>NaN\<close>.\<close>

definition addToCart :: "card \<Rightarrow> cart_provider \<Rightarrow> cart_provider" where
  "addToCart c =
     setCartItems (\<lambda>prevItems.
       (case List.find (\<lambda>item. item_id item = card_id c) prevItems of
          Some existingItem \<Rightarrow>
            map (\<lambda>item. if item_id item = card_id c
                         then item\<lparr>quantity := quantity item + Num 1\<rparr> else item) prevItems
        | None \<Rightarrow>
            prevItems @
              [\<lparr>item_id = card_id c, name = Name c, item_image = Image c,
                price = (case Price c of
                           None \<Rightarrow> Num (399 / 100)
                         | Some p \<Rightarrow> if falsy p then Num (399 / 100) else p),
                quantity = Num 1, premiumPackaging = False\<rparr>]))"

text \<open>The only check of \<^verbatim>\<open>updateQuantity\<close> is \<^verbatim>\<open>quantity < 1\<close>: every number for which that
  comparison is false is stored, a fraction and \<^verbatim>\<open>NaN\<close> included.\<close>

definition updateQuantity :: "string \<Rightarrow> js_number \<Rightarrow> cart_provider \<Rightarrow> cart_provider" where
  "updateQuantity i q s =
     (if js_less q (Num 1) then s
      else setCartItems
             (map (\<lambda>item. if item_id item = i then item\<lparr>quantity := q\<rparr> else item)) s)"

definition togglePremiumPackaging :: "string \<Rightarrow> cart_provider \<Rightarrow> cart_provider" where
  "togglePremiumPackaging i =
     setCartItems
       (map (\<lambda>item. if item_id item = i
                    then item\<lparr>premiumPackaging := \<not> premiumPackaging item\<rparr> else item))"

definition removeFromCart :: "string \<Rightarrow> cart_provider \<Rightarrow> cart_provider" where
  "removeFromCart i = setCartItems (filter (\<lambda>item. item_id item \<noteq> i))"

definition clearCart :: "cart_provider \<Rightarrow> cart_provider" where
  "clearCart = setCartItems (\<lambda>_. [])"

definition updateShipping :: "js_number \<Rightarrow> cart_provider \<Rightarrow> cart_provider" where
  "updateShipping newShippingPrice s = s\<lparr>shipping := newShippingPrice\<rparr>"

definition updatePremiumPackPrice :: "js_number \<Rightarrow> cart_provider \<Rightarrow> cart_provider" where
  "updatePremiumPackPrice newPremiumPackPrice s = s\<lparr>premiumPackPrice := newPremiumPackPrice\<rparr>"

subsection \<open>Pricing\<close>

definition calculatePremiumPackagingTotal :: "cart_provider \<Rightarrow> js_number" where
  "calculatePremiumPackagingTotal s =
     foldl (\<lambda>total item.
              if premiumPackaging item
              then total + premiumPackPrice s * quantity item
              else total) (Num 0) (cartItems s)"

definition calculateTotal :: "cart_provider \<Rightarrow> js_number" where
  "calculateTotal s =
     (let premiumPackagingTotal = calculatePremiumPackagingTotal s;
          taxableAmount = cartSubtotal s + shipping s;
          taxAmount = taxableAmount * taxRate s
      in cartSubtotal s + shipping s + premiumPackagingTotal + taxAmount)"

definition getTaxAmount :: "cart_provider \<Rightarrow> js_number" where
  "getTaxAmount s =
     (let taxableAmount = cartSubtotal s + shipping s in taxableAmount * taxRate s)"

subsection \<open>The sums the pricing rules speak of\<close>

definition subtotal_of :: "line_item list \<Rightarrow> js_number" where
  "subtotal_of items = (\<Sum>item\<leftarrow>items. price item * quantity item)"

definition count_of :: "line_item list \<Rightarrow> js_number" where
  "count_of items = (\<Sum>item\<leftarrow>items. quantity item)"

definition packaging_of :: "js_number \<Rightarrow> line_item list \<Rightarrow> js_number" where
  "packaging_of unitPrice items =
     (\<Sum>item\<leftarrow>filter premiumPackaging items. unitPrice * quantity item)"

subsection \<open>The mutators of the context value\<close>

text \<open>The context value exposes seven functions that change state: \<^verbatim>\<open>addToCart\<close>,
  \<^verbatim>\<open>updateQuantity\<close>, \<^verbatim>\<open>togglePremiumPackaging\<close>, \<^verbatim>\<open>removeFromCart\<close>, \<^verbatim>\<open>clearCart\<close>,
  \<^verbatim>\<open>updateShipping\<close> and \<^verbatim>\<open>updatePremiumPackPrice\<close>. A session is a list of calls.\<close>

datatype action =
    AddToCart card
  | UpdateQuantity string js_number
  | TogglePremiumPackaging string
  | RemoveFromCart string
  | ClearCart
  | UpdateShipping js_number
  | UpdatePremiumPackPrice js_number

fun dispatch :: "action \<Rightarrow> cart_provider \<Rightarrow> cart_provider" where
  "dispatch (AddToCart c) s = addToCart c s"
| "dispatch (UpdateQuantity i q) s = updateQuantity i q s"
| "dispatch (TogglePremiumPackaging i) s = togglePremiumPackaging i s"
| "dispatch (RemoveFromCart i) s = removeFromCart i s"
| "dispatch ClearCart s = clearCart s"
| "dispatch (UpdateShipping v) s = updateShipping v s"
| "dispatch (UpdatePremiumPackPrice v) s = updatePremiumPackPrice v s"

definition run :: "action list \<Rightarrow> cart_provider \<Rightarrow> cart_provider" where
  "run acts s = foldl (\<lambda>st a. dispatch a st) s acts"

subsection \<open>Well-formed carts\<close>

text \<open>Every quantity is an integer and at least 1, and no id occurs twice.\<close>

definition valid_quantity :: "js_number \<Rightarrow> bool" where
  "valid_quantity q \<longleftrightarrow> is_integer q \<and> js_le (Num 1) q"

definition well_formed :: "line_item list \<Rightarrow> bool" where
  "well_formed items \<longleftrightarrow>
     list_all (\<lambda>item. valid_quantity (quantity item)) items \<and> distinct (map item_id items)"

text \<open>The ids that occur in both carts occur in the same order in both.\<close>

definition order_kept :: "line_item list \<Rightarrow> line_item list \<Rightarrow> bool" where
  "order_kept old new \<longleftrightarrow>
     filter (\<lambda>i. i \<in> set (map item_id new)) (map item_id old)
       = filter (\<lambda>i. i \<in> set (map item_id old)) (map item_id new)"

text \<open>What one line item adds to the premium packaging total (the step of the reducer in
  \<^verbatim>\<open>calculatePremiumPackagingTotal\<close>).\<close>

definition contribution :: "js_number \<Rightarrow> line_item \<Rightarrow> js_number" where
  "contribution unitPrice item =
     (if premiumPackaging item then unitPrice * quantity item else Num 0)"


text \<open>The calls of \<^verbatim>\<open>updateQuantity\<close> with an integer: the buttons of \<^verbatim>\<open>Cart.jsx\<close> pass
  \<^verbatim>\<open>item.quantity - 1\<close> and \<^verbatim>\<open>item.quantity + 1\<close>.\<close>

fun integral_call :: "action \<Rightarrow> bool" where
  "integral_call (UpdateQuantity i q) \<longleftrightarrow> is_integer q"
| "integral_call _ \<longleftrightarrow> True"

subsection \<open>Sample data\<close>

definition elsa :: card where
  "elsa =
     \<lparr>card_id = ''c1'', Name = ''Elsa'', Image = ''elsa.png'', Price = Some (Num (499 / 100))\<rparr>"

definition promo :: card where
  "promo = \<lparr>card_id = ''c2'', Name = ''Promo'', Image = ''promo.png'', Price = Some (Num 0)\<rparr>"

definition unpriced :: card where
  "unpriced = \<lparr>card_id = ''c3'', Name = ''Olaf'', Image = ''olaf.png'', Price = None\<rparr>"

definition elsa_line :: "js_number \<Rightarrow> bool \<Rightarrow> line_item" where
  "elsa_line q p =
     \<lparr>item_id = ''c1'', name = ''Elsa'', item_image = ''elsa.png'', price = Num (499 / 100),
      quantity = q, premiumPackaging = p\<rparr>"

definition olaf_line :: line_item where
  "olaf_line =
     \<lparr>item_id = ''c3'', name = ''Olaf'', item_image = ''olaf.png'', price = Num (399 / 100),
      quantity = Num 1, premiumPackaging = False\<rparr>"

text \<open>The value of the text
  \<^verbatim>\<open>[{"id":"c1","name":"Elsa","image":"elsa.png","price":4.99,"quantity":2,"premiumPackaging":true}]\<close>.\<close>

definition elsa_json :: json where
  "elsa_json =
     JArray
       [JObject
          [(''id'', JString ''c1''), (''name'', JString ''Elsa''),
           (''image'', JString ''elsa.png''), (''price'', JNumber (499 / 100)),
           (''quantity'', JNumber 2), (''premiumPackaging'', JBool True)]]"

text \<open>The same with \<^verbatim>\<open>"quantity":null\<close>.\<close>

definition elsa_json_null :: json where
  "elsa_json_null =
     JArray
       [JObject
          [(''id'', JString ''c1''), (''name'', JString ''Elsa''),
           (''image'', JString ''elsa.png''), (''price'', JNumber (499 / 100)),
           (''quantity'', JNull), (''premiumPackaging'', JBool True)]]"

text \<open>A session that starts with no stored cart, adds the card twice, switches premium
  packaging on and receives a shipping cost and a premium pack price from the pricing
  service; the same session with a second card in the cart; and the session that has kept
  the initial pricing parameters.\<close>

definition earlier_session :: cart_provider where
  "earlier_session =
     run [AddToCart elsa, AddToCart elsa, TogglePremiumPackaging ''c1'',
          UpdateShipping (Num (1299 / 100)), UpdatePremiumPackPrice (Num (2499 / 100))]
       (save_effect (initial_state None))"

definition two_line_session :: cart_provider where
  "two_line_session = addToCart unpriced earlier_session"

definition later_session :: cart_provider where
  "later_session =
     \<lparr>cartItems = [elsa_line (Num 2) True], cartCount = Num 2, cartSubtotal = Num (998 / 100),
      taxRate = Num (13 / 100), shipping = Num (599 / 100),
      premiumPackPrice = Num (1999 / 100), lorcanaCart = Some (Json elsa_json)\<rparr>"


section \<open>Properties\<close>

subsection \<open>Arithmetic of numbers\<close>

lemma js_zero [simp]: "(0::js_number) = Num 0"
  by (simp add: zero_js_number_def)

lemma js_plus [simp]:
  "Num x + Num y = Num (x + y)" "NaN + a = NaN" "a + NaN = NaN"
  by (simp_all add: plus_js_number_def split: js_number.splits)

lemma js_times [simp]:
  "Num x * Num y = Num (x * y)" "NaN * a = NaN" "a * NaN = NaN"
  by (simp_all add: times_js_number_def split: js_number.splits)

lemma js_plus_zero [simp]: "Num 0 + a = a" "a + Num 0 = a"
  by (cases a; simp)+

lemma js_le_zero_iff: "js_le (Num 0) a \<longleftrightarrow> (\<exists>x. a = Num x \<and> 0 \<le> x)"
  by (cases a) simp_all

lemma is_integer_iff: "is_integer a \<longleftrightarrow> (\<exists>x. a = Num x \<and> x \<in> \<int>)"
proof (cases a)
  case (Num x)
  have "of_int \<lfloor>x\<rfloor> = x \<longleftrightarrow> x \<in> \<int>"
    by (metis Ints_of_int Ints_cases of_int_floor_cancel)
  with Num show ?thesis by simp
qed simp

lemma valid_quantity_iff: "valid_quantity a \<longleftrightarrow> (\<exists>x. a = Num x \<and> x \<in> \<int> \<and> 1 \<le> x)"
  unfolding valid_quantity_def is_integer_iff by (cases a) auto

subsection \<open>The folds are the sums\<close>

lemma foldl_subtotal:
  "foldl (\<lambda>total item. total + price item * quantity item) a items = a + subtotal_of items"
  by (induction items arbitrary: a) (simp_all add: subtotal_of_def add.assoc)

lemma foldl_count:
  "foldl (\<lambda>total item. total + quantity item) a items = a + count_of items"
  by (induction items arbitrary: a) (simp_all add: count_of_def add.assoc)

lemma foldl_packaging:
  "foldl (\<lambda>total item. if premiumPackaging item then total + u * quantity item else total)
     a items
   = a + packaging_of u items"
  by (induction items arbitrary: a) (simp_all add: packaging_of_def add.assoc)

lemma cartSubtotal_save_effect: "cartSubtotal (save_effect s) = subtotal_of (cartItems s)"
  by (simp add: save_effect_def foldl_subtotal)

lemma cartCount_save_effect: "cartCount (save_effect s) = count_of (cartItems s)"
  by (simp add: save_effect_def foldl_count)

lemma cartItems_save_effect: "cartItems (save_effect s) = cartItems s"
  by (simp add: save_effect_def)

lemma params_save_effect:
  "taxRate (save_effect s) = taxRate s"
  "shipping (save_effect s) = shipping s"
  "premiumPackPrice (save_effect s) = premiumPackPrice s"
  by (simp_all add: save_effect_def)

lemma packaging_total_eq:
  "calculatePremiumPackagingTotal s = packaging_of (premiumPackPrice s) (cartItems s)"
  by (simp add: calculatePremiumPackagingTotal_def foldl_packaging)

text \<open>
  C1. Once the effect has recomputed the subtotal from the line items, the total is
  subtotal + shipping + premium packaging total + tax, the tax is
  (subtotal + shipping) * taxRate, the subtotal is the sum of price * quantity over all
  items and the premium packaging total is the sum of premiumPackPrice * quantity over
  exactly the items with premium packaging; the packaging total is no part of the taxed
  amount.
\<close>

theorem total_composition:
  "calculateTotal (save_effect s)
     = subtotal_of (cartItems s) + shipping s
       + packaging_of (premiumPackPrice s) (cartItems s)
       + (subtotal_of (cartItems s) + shipping s) * taxRate s
   \<and> getTaxAmount (save_effect s) = (subtotal_of (cartItems s) + shipping s) * taxRate s
   \<and> calculatePremiumPackagingTotal (save_effect s)
     = packaging_of (premiumPackPrice s) (cartItems s)
   \<and> cartSubtotal (save_effect s) = subtotal_of (cartItems s)"
  by (simp add: calculateTotal_def getTaxAmount_def packaging_total_eq
      cartSubtotal_save_effect cartItems_save_effect params_save_effect)

subsection \<open>What each operation does to the list of line items\<close>

lemma cartItems_setCartItems: "cartItems (setCartItems f s) = f (cartItems s)"
  by (simp add: setCartItems_def save_effect_def)

lemma find_None_iff_id:
  "List.find (\<lambda>item. item_id item = i) items = None \<longleftrightarrow> i \<notin> item_id ` set items"
  by (auto simp: find_None_iff)

lemma cartItems_addToCart_present:
  "card_id c \<in> item_id ` set (cartItems s) \<Longrightarrow>
   cartItems (addToCart c s) =
     map (\<lambda>item. if item_id item = card_id c
                  then item\<lparr>quantity := quantity item + Num 1\<rparr> else item) (cartItems s)"
  using find_None_iff_id[of "card_id c" "cartItems s"]
  by (auto simp: addToCart_def cartItems_setCartItems split: option.splits)

lemma cartItems_addToCart_absent:
  "card_id c \<notin> item_id ` set (cartItems s) \<Longrightarrow>
   cartItems (addToCart c s) =
     cartItems s @
       [\<lparr>item_id = card_id c, name = Name c, item_image = Image c,
         price = (case Price c of
                    None \<Rightarrow> Num (399 / 100)
                  | Some p \<Rightarrow> if falsy p then Num (399 / 100) else p),
         quantity = Num 1, premiumPackaging = False\<rparr>]"
  using find_None_iff_id[of "card_id c" "cartItems s"]
  by (auto simp: addToCart_def cartItems_setCartItems split: option.splits)

lemma cartItems_updateQuantity:
  "cartItems (updateQuantity i q s) =
     (if js_less q (Num 1) then cartItems s
      else map (\<lambda>item. if item_id item = i then item\<lparr>quantity := q\<rparr> else item)
             (cartItems s))"
  by (simp add: updateQuantity_def cartItems_setCartItems)

lemma cartItems_togglePremiumPackaging:
  "cartItems (togglePremiumPackaging i s) =
     map (\<lambda>item. if item_id item = i
                  then item\<lparr>premiumPackaging := \<not> premiumPackaging item\<rparr> else item)
       (cartItems s)"
  by (simp add: togglePremiumPackaging_def cartItems_setCartItems)

lemma cartItems_removeFromCart:
  "cartItems (removeFromCart i s) = filter (\<lambda>item. item_id item \<noteq> i) (cartItems s)"
  by (simp add: removeFromCart_def cartItems_setCartItems)

lemma cartItems_clearCart: "cartItems (clearCart s) = []"
  by (simp add: clearCart_def cartItems_setCartItems)

lemma map_unmatched:
  "i \<notin> item_id ` set items \<Longrightarrow>
   map (\<lambda>item. if item_id item = i then f item else item) items = items"
  by (induction items) auto

subsection \<open>Evaluating the sample data\<close>

lemmas sample_defs = elsa_def promo_def unpriced_def elsa_line_def olaf_line_def
  elsa_json_def elsa_json_null_def JSON_stringify_def item_to_json_def as_line_items_def
  as_line_item_def initial_state_def save_effect_def setCartItems_def addToCart_def
  updateQuantity_def togglePremiumPackaging_def removeFromCart_def clearCart_def
  updateShipping_def updatePremiumPackPrice_def run_def mount_def load_effect_def

lemma earlier_session_eq:
  "earlier_session =
     \<lparr>cartItems = [elsa_line (Num 2) True], cartCount = Num 2,
      cartSubtotal = Num (998 / 100), taxRate = Num (13 / 100),
      shipping = Num (1299 / 100), premiumPackPrice = Num (2499 / 100),
      lorcanaCart = Some (Json elsa_json)\<rparr>"
  by (simp add: earlier_session_def sample_defs)

lemma two_line_session_eq:
  "two_line_session =
     \<lparr>cartItems = [elsa_line (Num 2) True, olaf_line], cartCount = Num 3,
      cartSubtotal = Num (1397 / 100), taxRate = Num (13 / 100),
      shipping = Num (1299 / 100), premiumPackPrice = Num (2499 / 100),
      lorcanaCart = Some (JSON_stringify [elsa_line (Num 2) True, olaf_line])\<rparr>"
  by (simp add: two_line_session_def earlier_session_eq sample_defs)


subsection \<open>Mounting\<close>

lemma mount_absent: "mount None = Mounted (save_effect (initial_state None))"
  by (simp add: mount_def load_effect_def initial_state_def)

lemma mount_empty_text:
  "mount (Some (NotJson [])) = Mounted (save_effect (initial_state (Some (NotJson []))))"
  by (simp add: mount_def load_effect_def initial_state_def)

lemma mount_rejected: "t \<noteq> [] \<Longrightarrow> mount (Some (NotJson t)) = Threw SyntaxError"
  by (simp add: mount_def load_effect_def initial_state_def)

lemma mount_parsed:
  "as_line_items v = Some items \<Longrightarrow>
   mount (Some (Json v))
     = Mounted (save_effect ((initial_state (Some (Json v)))\<lparr>cartItems := items\<rparr>))"
  by (simp add: mount_def load_effect_def initial_state_def setCartItems_def save_effect_def)

text \<open>
  C2, as the code has it. An absent record and an empty text start the store with an
  empty cart and no error. A JSON text whose value is an array of line items becomes the
  cart. A non-empty text that is not JSON makes mounting fail with the \<^verbatim>\<open>SyntaxError\<close> of
  \<^verbatim>\<open>JSON.parse\<close>: the effect has no handler, so a malformed record is not treated as an
  empty cart.
\<close>

theorem mount_outcomes:
  "(storage = None \<or> storage = Some (NotJson []) \<longrightarrow>
      (\<exists>s. mount storage = Mounted s \<and> cartItems s = [] \<and> cartCount s = Num 0
           \<and> cartSubtotal s = Num 0))
   \<and> (\<forall>v parsed. storage = Some (Json v) \<and> as_line_items v = Some parsed \<longrightarrow>
        (\<exists>s. mount storage = Mounted s \<and> cartItems s = parsed))
   \<and> (\<forall>t. storage = Some (NotJson t) \<and> t \<noteq> [] \<longrightarrow> mount storage = Threw SyntaxError)"
proof (intro conjI impI allI)
  assume "storage = None \<or> storage = Some (NotJson [])"
  then show "\<exists>s. mount storage = Mounted s \<and> cartItems s = [] \<and> cartCount s = Num 0
               \<and> cartSubtotal s = Num 0"
    by (auto simp: mount_absent mount_empty_text save_effect_def initial_state_def)
next
  fix v parsed
  assume "storage = Some (Json v) \<and> as_line_items v = Some parsed"
  then show "\<exists>s. mount storage = Mounted s \<and> cartItems s = parsed"
    by (auto simp: mount_parsed cartItems_save_effect)
next
  fix t
  assume "storage = Some (NotJson t) \<and> t \<noteq> []"
  then show "mount storage = Threw SyntaxError"
    by (auto simp: mount_rejected)
qed

text \<open>The four cases of C2 on the sample data: no record, the empty text, a text that is
  not JSON, and the text of a stored cart.\<close>

theorem mount_outcomes_witness:
  "mount None = Mounted (initial_state (Some (Json (JArray []))))
   \<and> mount (Some (NotJson [])) = Mounted (initial_state (Some (Json (JArray []))))
   \<and> JSON_parse (NotJson ''{oops'') = Inl SyntaxError
   \<and> mount (Some (NotJson ''{oops'')) = Threw SyntaxError
   \<and> as_line_items elsa_json = Some [elsa_line (Num 2) True]
   \<and> mount (Some (Json elsa_json)) = Mounted later_session"
  using mount_outcomes[of None]
    mount_outcomes[of "Some (NotJson [])"]
    mount_outcomes[of "Some (NotJson ''{oops'')"]
    mount_outcomes[of "Some (Json elsa_json)"]
  by (simp add: later_session_def sample_defs)

text \<open>C2 as stated fails: with the malformed record \<^verbatim>\<open>{oops\<close> in the storage, mounting ends
  in the \<^verbatim>\<open>SyntaxError\<close> of \<^verbatim>\<open>JSON.parse\<close> instead of an empty cart.\<close>

theorem mount_malformed_counterexample:
  "JSON_parse (NotJson ''{oops'') = Inl SyntaxError
   \<and> mount (Some (NotJson ''{oops'')) = Threw SyntaxError"
  by (simp add: sample_defs)

subsection \<open>Adding a card\<close>

text \<open>
  C3. Adding a card whose id is in the cart adds no line: length and ids stay, every line
  with that id has its quantity raised by 1 and every other line is unchanged. Adding a
  card whose id is not in the cart appends one line with that id, the card's name and
  image, quantity 1 and no premium packaging. \<open>addToCart\<close> is total: it has no error result.
  Adding a card twice to an empty cart leaves exactly one line, with quantity 2.
\<close>

theorem addToCart_spec:
  "(card_id c \<in> item_id ` set (cartItems s) \<longrightarrow>
      length (cartItems (addToCart c s)) = length (cartItems s) \<and>
      map item_id (cartItems (addToCart c s)) = map item_id (cartItems s) \<and>
      (\<forall>k < length (cartItems s).
         cartItems (addToCart c s) ! k =
           (if item_id (cartItems s ! k) = card_id c
            then (cartItems s ! k)\<lparr>quantity := quantity (cartItems s ! k) + Num 1\<rparr>
            else cartItems s ! k)))
   \<and> (card_id c \<notin> item_id ` set (cartItems s) \<longrightarrow>
      (\<exists>new. cartItems (addToCart c s) = cartItems s @ [new] \<and>
             item_id new = card_id c \<and> name new = Name c \<and> item_image new = Image c \<and>
             quantity new = Num 1 \<and> \<not> premiumPackaging new))
   \<and> (cartItems s = [] \<longrightarrow>
      (\<exists>only. cartItems (addToCart c (addToCart c s)) = [only] \<and>
              item_id only = card_id c \<and> quantity only = Num 2))"
proof (intro conjI impI)
  assume p: "card_id c \<in> item_id ` set (cartItems s)"
  show "length (cartItems (addToCart c s)) = length (cartItems s)"
    by (simp add: cartItems_addToCart_present[OF p])
  show "map item_id (cartItems (addToCart c s)) = map item_id (cartItems s)"
    by (simp add: cartItems_addToCart_present[OF p] comp_def if_distrib cong: if_cong)
  show "\<forall>k < length (cartItems s).
         cartItems (addToCart c s) ! k =
           (if item_id (cartItems s ! k) = card_id c
            then (cartItems s ! k)\<lparr>quantity := quantity (cartItems s ! k) + Num 1\<rparr>
            else cartItems s ! k)"
    by (simp add: cartItems_addToCart_present[OF p])
next
  assume a: "card_id c \<notin> item_id ` set (cartItems s)"
  show "\<exists>new. cartItems (addToCart c s) = cartItems s @ [new] \<and>
             item_id new = card_id c \<and> name new = Name c \<and> item_image new = Image c \<and>
             quantity new = Num 1 \<and> \<not> premiumPackaging new"
    by (simp add: cartItems_addToCart_absent[OF a])
next
  assume e: "cartItems s = []"
  then have a: "card_id c \<notin> item_id ` set (cartItems s)" by simp
  have p: "card_id c \<in> item_id ` set (cartItems (addToCart c s))"
    by (simp add: cartItems_addToCart_absent[OF a])
  show "\<exists>only. cartItems (addToCart c (addToCart c s)) = [only] \<and>
              item_id only = card_id c \<and> quantity only = Num 2"
    by (simp add: cartItems_addToCart_present[OF p] cartItems_addToCart_absent[OF a] e)
qed

text \<open>C3 on the sample card: the first call appends the line, the second raises its
  quantity to 2; in a cart of two lines only the line of the card is raised.\<close>

theorem addToCart_spec_witness:
  "card_id elsa \<notin> item_id ` set (cartItems (initial_state None))
   \<and> cartItems (initial_state None) = []
   \<and> cartItems (addToCart elsa (initial_state None)) = [elsa_line (Num 1) False]
   \<and> card_id elsa \<in> item_id ` set (cartItems (addToCart elsa (initial_state None)))
   \<and> cartItems (addToCart elsa (addToCart elsa (initial_state None)))
       = [elsa_line (Num 2) False]
   \<and> card_id elsa \<in> item_id ` set (cartItems two_line_session)
   \<and> cartItems (addToCart elsa two_line_session) = [elsa_line (Num 3) True, olaf_line]"
  using addToCart_spec[of elsa "initial_state None"]
    addToCart_spec[of elsa "addToCart elsa (initial_state None)"]
    addToCart_spec[of elsa two_line_session]
  by (simp add: two_line_session_eq sample_defs)

text \<open>The price of an appended line: the card's price, unless that is missing or falsy.\<close>

lemma addToCart_price:
  "card_id c \<notin> item_id ` set (cartItems s) \<Longrightarrow>
   price (last (cartItems (addToCart c s)))
     = (case Price c of None \<Rightarrow> Num (399 / 100)
        | Some p \<Rightarrow> if falsy p then Num (399 / 100) else p)"
  by (simp add: cartItems_addToCart_absent)

text \<open>
  C5, at the input where the code departs from it. The card \<open>promo\<close> has the catalog price
  0, and the line that \<open>addToCart\<close> appends for it has the price 3.99: \<^verbatim>\<open>card.Price || 3.99\<close>
  takes the fallback for every falsy price, not only for a missing one.
\<close>

theorem addToCart_zero_price:
  "Price promo = Some (Num 0)
   \<and> map price (cartItems (addToCart promo (initial_state None))) = [Num (399 / 100)]"
  by (simp add: sample_defs)

subsection \<open>Changing a quantity\<close>

lemma not_less_if_le: "js_le (Num 1) q \<Longrightarrow> \<not> js_less q (Num 1)"
  by (cases q) simp_all

text \<open>
  C4. With a new quantity of at least 1 every line with the given id gets that quantity and
  every other line is unchanged; with a new quantity below 1 the whole state is unchanged
  (there is no error result); with an id that no line has, the cart is unchanged.
\<close>

theorem updateQuantity_spec:
  "(js_le (Num 1) q \<longrightarrow>
      length (cartItems (updateQuantity i q s)) = length (cartItems s) \<and>
      (\<forall>k < length (cartItems s).
         cartItems (updateQuantity i q s) ! k =
           (if item_id (cartItems s ! k) = i then (cartItems s ! k)\<lparr>quantity := q\<rparr>
            else cartItems s ! k)))
   \<and> (js_less q (Num 1) \<longrightarrow> updateQuantity i q s = s)
   \<and> (i \<notin> item_id ` set (cartItems s) \<longrightarrow>
        cartItems (updateQuantity i q s) = cartItems s)"
proof (intro conjI impI)
  assume "js_le (Num 1) q"
  then have n: "\<not> js_less q (Num 1)" by (rule not_less_if_le)
  show "length (cartItems (updateQuantity i q s)) = length (cartItems s)"
    by (simp add: cartItems_updateQuantity)
  show "\<forall>k < length (cartItems s).
         cartItems (updateQuantity i q s) ! k =
           (if item_id (cartItems s ! k) = i then (cartItems s ! k)\<lparr>quantity := q\<rparr>
            else cartItems s ! k)"
    using n by (simp add: cartItems_updateQuantity)
next
  assume "js_less q (Num 1)"
  then show "updateQuantity i q s = s" by (simp add: updateQuantity_def)
next
  assume "i \<notin> item_id ` set (cartItems s)"
  then show "cartItems (updateQuantity i q s) = cartItems s"
    by (simp add: cartItems_updateQuantity map_unmatched)
qed

text \<open>C4 on the sample session of two lines: quantity 3 is set on the line of the id and
  the other line stays, 0 and -1 are ignored, an unknown id changes nothing.\<close>

theorem updateQuantity_spec_witness:
  "js_le (Num 1) (Num 3)
   \<and> cartItems (updateQuantity ''c1'' (Num 3) two_line_session)
       = [elsa_line (Num 3) True, olaf_line]
   \<and> js_less (Num 0) (Num 1)
   \<and> updateQuantity ''c1'' (Num 0) two_line_session = two_line_session
   \<and> js_less (Num (- 1)) (Num 1)
   \<and> updateQuantity ''c1'' (Num (- 1)) two_line_session = two_line_session
   \<and> ''c9'' \<notin> item_id ` set (cartItems two_line_session)
   \<and> cartItems (updateQuantity ''c9'' (Num 3) two_line_session)
       = cartItems two_line_session"
  using updateQuantity_spec[of "Num 3" "''c1''" two_line_session]
    updateQuantity_spec[of "Num 0" "''c1''" two_line_session]
    updateQuantity_spec[of "Num (- 1)" "''c1''" two_line_session]
    updateQuantity_spec[of "Num 3" "''c9''" two_line_session]
  by (simp add: two_line_session_eq sample_defs)

subsection \<open>Well-formed carts\<close>

lemma ids_map_quantity:
  "map item_id
     (map (\<lambda>item. if item_id item = i then item\<lparr>quantity := f item\<rparr> else item) items)
   = map item_id items"
  by (induction items) auto

lemma ids_map_premium:
  "map item_id
     (map (\<lambda>item. if item_id item = i then item\<lparr>premiumPackaging := f item\<rparr> else item)
        items)
   = map item_id items"
  by (induction items) auto

lemma order_kept_same_ids: "map item_id new = map item_id old \<Longrightarrow> order_kept old new"
  by (simp add: order_kept_def)

lemma order_kept_append: "item_id x \<notin> item_id ` set old \<Longrightarrow> order_kept old (old @ [x])"
  by (auto simp: order_kept_def filter_id_conv)

lemma order_kept_filter: "order_kept old (filter (\<lambda>item. item_id item \<noteq> i) old)"
proof -
  have "map item_id (filter (\<lambda>item. item_id item \<noteq> i) old)
          = filter (\<lambda>j. j \<noteq> i) (map item_id old)"
    by (simp add: filter_map comp_def)
  then show ?thesis
    by (auto simp: order_kept_def intro: filter_cong)
qed

lemma order_kept_Nil: "order_kept old []"
  by (simp add: order_kept_def)

lemma valid_quantity_succ: "valid_quantity q \<Longrightarrow> valid_quantity (q + Num 1)"
  unfolding valid_quantity_iff by (auto intro: Ints_add)

lemma valid_quantity_one: "valid_quantity (Num 1)"
  unfolding valid_quantity_iff by simp

lemma valid_quantity_stored:
  "is_integer q \<Longrightarrow> \<not> js_less q (Num 1) \<Longrightarrow> valid_quantity q"
  unfolding valid_quantity_def by (cases q) simp_all

lemma not_valid_quantity_stored: "\<not> is_integer q \<Longrightarrow> \<not> valid_quantity q"
  by (simp add: valid_quantity_def)

lemma well_formed_map_quantity:
  assumes "well_formed items"
    and "\<And>item. item \<in> set items \<Longrightarrow> valid_quantity (f item)"
  shows "well_formed
           (map (\<lambda>item. if item_id item = i then item\<lparr>quantity := f item\<rparr> else item) items)"
  using assms unfolding well_formed_def ids_map_quantity
  by (auto simp: list_all_iff)

lemma well_formed_addToCart:
  assumes "well_formed (cartItems s)"
  shows "well_formed (cartItems (addToCart c s))"
proof (cases "card_id c \<in> item_id ` set (cartItems s)")
  case True
  have "valid_quantity (quantity item + Num 1)" if "item \<in> set (cartItems s)" for item
    using assms that by (auto simp: well_formed_def list_all_iff intro: valid_quantity_succ)
  then show ?thesis
    unfolding cartItems_addToCart_present[OF True]
    by (intro well_formed_map_quantity assms)
next
  case False
  with assms show ?thesis
    unfolding cartItems_addToCart_absent[OF False] well_formed_def
    by (auto simp: list_all_iff valid_quantity_one)
qed

lemma order_kept_addToCart: "order_kept (cartItems s) (cartItems (addToCart c s))"
proof (cases "card_id c \<in> item_id ` set (cartItems s)")
  case True
  show ?thesis
    unfolding cartItems_addToCart_present[OF True]
    by (rule order_kept_same_ids) (rule ids_map_quantity)
next
  case False
  show ?thesis
    unfolding cartItems_addToCart_absent[OF False]
    by (rule order_kept_append) (use False in simp)
qed

lemma ids_updateQuantity:
  "map item_id (cartItems (updateQuantity i q s)) = map item_id (cartItems s)"
  by (simp add: cartItems_updateQuantity ids_map_quantity)

lemma well_formed_updateQuantity_iff:
  assumes "well_formed (cartItems s)"
  shows "well_formed (cartItems (updateQuantity i q s))
           \<longleftrightarrow> is_integer q \<or> js_less q (Num 1) \<or> i \<notin> item_id ` set (cartItems s)"
proof (cases "js_less q (Num 1) \<or> i \<notin> item_id ` set (cartItems s)")
  case True
  then have "cartItems (updateQuantity i q s) = cartItems s"
    by (auto simp: cartItems_updateQuantity map_unmatched)
  with assms True show ?thesis by auto
next
  case False
  then have stored: "\<not> js_less q (Num 1)" and present: "i \<in> item_id ` set (cartItems s)"
    by auto
  have items: "cartItems (updateQuantity i q s)
      = map (\<lambda>item. if item_id item = i then item\<lparr>quantity := q\<rparr> else item) (cartItems s)"
    using stored by (simp add: cartItems_updateQuantity)
  show ?thesis
  proof (cases "is_integer q")
    case True
    then have "valid_quantity q" using stored by (rule valid_quantity_stored)
    then have "well_formed (cartItems (updateQuantity i q s))"
      unfolding items by (intro well_formed_map_quantity assms)
    with True show ?thesis by simp
  next
    case fraction: False
    from present obtain item where "item \<in> set (cartItems s)" "item_id item = i"
      by auto
    then have "item\<lparr>quantity := q\<rparr> \<in> set (cartItems (updateQuantity i q s))"
      unfolding items by force
    moreover have "\<not> valid_quantity (quantity (item\<lparr>quantity := q\<rparr>))"
      using fraction by (simp add: not_valid_quantity_stored)
    ultimately have "\<not> well_formed (cartItems (updateQuantity i q s))"
      unfolding well_formed_def list_all_iff by blast
    with fraction False show ?thesis by simp
  qed
qed

lemma order_kept_updateQuantity:
  "order_kept (cartItems s) (cartItems (updateQuantity i q s))"
  by (rule order_kept_same_ids) (rule ids_updateQuantity)

lemma well_formed_toggle:
  "well_formed (cartItems s) \<Longrightarrow> well_formed (cartItems (togglePremiumPackaging i s))"
  unfolding cartItems_togglePremiumPackaging well_formed_def ids_map_premium
  by (auto simp: list_all_iff)

lemma order_kept_toggle:
  "order_kept (cartItems s) (cartItems (togglePremiumPackaging i s))"
  by (rule order_kept_same_ids) (simp add: cartItems_togglePremiumPackaging ids_map_premium)

lemma well_formed_remove:
  "well_formed (cartItems s) \<Longrightarrow> well_formed (cartItems (removeFromCart i s))"
  unfolding cartItems_removeFromCart well_formed_def
  by (auto simp: list_all_iff distinct_map_filter)

lemma order_kept_remove:
  "order_kept (cartItems s) (cartItems (removeFromCart i s))"
  unfolding cartItems_removeFromCart by (rule order_kept_filter)

text \<open>
  C6, as the code has it. From a well-formed cart (every quantity an integer of at least 1,
  ids pairwise distinct), each of \<open>addToCart\<close>, \<open>togglePremiumPackaging\<close>, \<open>removeFromCart\<close>
  and \<open>clearCart\<close> gives a well-formed cart, and so does \<open>updateQuantity\<close> when the new
  quantity is an integer, or is below 1 (the call is ignored), or the id is not in the
  cart. After each of the five operations, \<open>updateQuantity\<close> with any number included, the
  ids are pairwise distinct and the lines that remain keep their order.
\<close>

theorem operations_preserve_well_formed:
  assumes "well_formed (cartItems s)"
  shows "well_formed (cartItems (addToCart c s)) \<and>
         order_kept (cartItems s) (cartItems (addToCart c s)) \<and>
         (is_integer q \<or> js_less q (Num 1) \<or> i \<notin> item_id ` set (cartItems s) \<longrightarrow>
            well_formed (cartItems (updateQuantity i q s))) \<and>
         distinct (map item_id (cartItems (updateQuantity i q s))) \<and>
         order_kept (cartItems s) (cartItems (updateQuantity i q s)) \<and>
         well_formed (cartItems (togglePremiumPackaging i s)) \<and>
         order_kept (cartItems s) (cartItems (togglePremiumPackaging i s)) \<and>
         well_formed (cartItems (removeFromCart i s)) \<and>
         order_kept (cartItems s) (cartItems (removeFromCart i s)) \<and>
         well_formed (cartItems (clearCart s)) \<and>
         order_kept (cartItems s) (cartItems (clearCart s))"
proof -
  have "well_formed (cartItems (clearCart s))"
    by (simp add: cartItems_clearCart well_formed_def)
  moreover have "order_kept (cartItems s) (cartItems (clearCart s))"
    by (simp add: cartItems_clearCart order_kept_Nil)
  moreover have "distinct (map item_id (cartItems (updateQuantity i q s)))"
    using assms by (simp add: ids_updateQuantity well_formed_def)
  moreover note well_formed_updateQuantity_iff[OF assms, of i q]
  ultimately show ?thesis
    using assms
    by (simp add: well_formed_addToCart order_kept_addToCart
        order_kept_updateQuantity well_formed_toggle order_kept_toggle well_formed_remove
        order_kept_remove)
qed

text \<open>C6 on the sample session of two lines: the quantity of a line in the cart goes from
  2 to 3, a third card is appended after the two, the integer 7 is set on the second
  line, premium packaging is switched on the second line, and removing the first line
  leaves the second.\<close>

theorem operations_preserve_well_formed_witness:
  "well_formed (cartItems two_line_session)
   \<and> cartItems two_line_session = [elsa_line (Num 2) True, olaf_line]
   \<and> cartItems (addToCart elsa two_line_session) = [elsa_line (Num 3) True, olaf_line]
   \<and> well_formed (cartItems (addToCart elsa two_line_session))
   \<and> cartItems (addToCart promo two_line_session)
       = [elsa_line (Num 2) True, olaf_line,
          \<lparr>item_id = ''c2'', name = ''Promo'', item_image = ''promo.png'',
           price = Num (399 / 100), quantity = Num 1, premiumPackaging = False\<rparr>]
   \<and> well_formed (cartItems (addToCart promo two_line_session))
   \<and> order_kept (cartItems two_line_session) (cartItems (addToCart promo two_line_session))
   \<and> is_integer (Num 7)
   \<and> cartItems (updateQuantity ''c3'' (Num 7) two_line_session)
       = [elsa_line (Num 2) True, olaf_line\<lparr>quantity := Num 7\<rparr>]
   \<and> well_formed (cartItems (updateQuantity ''c3'' (Num 7) two_line_session))
   \<and> cartItems (togglePremiumPackaging ''c3'' two_line_session)
       = [elsa_line (Num 2) True, olaf_line\<lparr>premiumPackaging := True\<rparr>]
   \<and> well_formed (cartItems (togglePremiumPackaging ''c3'' two_line_session))
   \<and> cartItems (removeFromCart ''c1'' two_line_session) = [olaf_line]
   \<and> well_formed (cartItems (removeFromCart ''c1'' two_line_session))
   \<and> order_kept (cartItems two_line_session) (cartItems (removeFromCart ''c1'' two_line_session))
   \<and> cartItems (clearCart two_line_session) = []"
  using operations_preserve_well_formed
      [where s = two_line_session and c = elsa and i = "''c3''" and q = "Num 7"]
    operations_preserve_well_formed
      [where s = two_line_session and c = promo and i = "''c1''" and q = "Num 7"]
  by (simp add: two_line_session_eq well_formed_def valid_quantity_def order_kept_def
      sample_defs)

text \<open>C6 as stated fails: \<open>updateQuantity\<close> checks only that the new quantity is not below
  1, so 2.5 is stored in a well-formed cart, and the cart is no longer well-formed. The
  same happens with \<^verbatim>\<open>NaN\<close>, for which \<^verbatim>\<open>quantity < 1\<close> is false as well.\<close>

theorem updateQuantity_fraction_counterexample:
  "well_formed (cartItems two_line_session)
   \<and> \<not> js_less (Num (5 / 2)) (Num 1)
   \<and> cartItems (updateQuantity ''c1'' (Num (5 / 2)) two_line_session)
       = [elsa_line (Num (5 / 2)) True, olaf_line]
   \<and> \<not> is_integer (Num (5 / 2))
   \<and> \<not> well_formed (cartItems (updateQuantity ''c1'' (Num (5 / 2)) two_line_session))
   \<and> cartItems (updateQuantity ''c1'' NaN two_line_session)
       = [elsa_line NaN True, olaf_line]
   \<and> \<not> well_formed (cartItems (updateQuantity ''c1'' NaN two_line_session))"
  by (simp add: two_line_session_eq well_formed_def valid_quantity_def sample_defs)

text \<open>Along a whole session in which \<open>updateQuantity\<close> is called with integers only, the cart
  stays well-formed.\<close>

lemma cartItems_update_params:
  "cartItems (updateShipping v s) = cartItems s"
  "cartItems (updatePremiumPackPrice v s) = cartItems s"
  by (simp_all add: updateShipping_def updatePremiumPackPrice_def)

lemma well_formed_dispatch:
  assumes "well_formed (cartItems s)" and "integral_call a"
  shows "well_formed (cartItems (dispatch a s))"
proof (cases a)
  case (UpdateQuantity i q)
  with assms show ?thesis by (simp add: well_formed_updateQuantity_iff)
next
  case ClearCart
  then show ?thesis by (simp add: cartItems_clearCart well_formed_def)
qed (use assms in \<open>simp_all add: well_formed_addToCart well_formed_toggle well_formed_remove
        cartItems_update_params\<close>)

lemma well_formed_run:
  "well_formed (cartItems s) \<Longrightarrow> list_all integral_call acts \<Longrightarrow>
   well_formed (cartItems (run acts s))"
  unfolding run_def by (induction acts arbitrary: s) (simp_all add: well_formed_dispatch)

subsection \<open>Toggling premium packaging twice\<close>

lemma toggle_toggle_items:
  "map (\<lambda>item. if item_id item = i
                then item\<lparr>premiumPackaging := \<not> premiumPackaging item\<rparr> else item)
     (map (\<lambda>item. if item_id item = i
                   then item\<lparr>premiumPackaging := \<not> premiumPackaging item\<rparr> else item) items)
   = items"
  by (induction items) auto

lemma setCartItems_settled:
  "setCartItems f (setCartItems g s) = setCartItems (f \<circ> g) s"
  by (simp add: setCartItems_def save_effect_def)

lemma setCartItems_id_settled:
  "f (cartItems s) = cartItems s \<Longrightarrow> setCartItems f (save_effect s) = save_effect s"
  by (simp add: setCartItems_def save_effect_def)

text \<open>
  C7. Two calls of \<open>togglePremiumPackaging\<close> with the same id give back the list of line
  items, hence what each line contributes to the premium packaging total and the total
  itself; a state that the save effect has left is given back whole, stored record and
  derived values included.
\<close>

theorem toggle_twice:
  "cartItems (togglePremiumPackaging i (togglePremiumPackaging i s)) = cartItems s
   \<and> map (contribution (premiumPackPrice s))
        (cartItems (togglePremiumPackaging i (togglePremiumPackaging i s)))
      = map (contribution (premiumPackPrice s)) (cartItems s)
   \<and> calculatePremiumPackagingTotal (togglePremiumPackaging i (togglePremiumPackaging i s))
      = calculatePremiumPackagingTotal s
   \<and> togglePremiumPackaging i (togglePremiumPackaging i (save_effect s)) = save_effect s"
proof -
  have items:
    "cartItems (togglePremiumPackaging i (togglePremiumPackaging i s)) = cartItems s"
    by (simp only: cartItems_togglePremiumPackaging toggle_toggle_items)
  have unit_price:
    "premiumPackPrice (togglePremiumPackaging i (togglePremiumPackaging i s))
       = premiumPackPrice s"
    by (simp add: togglePremiumPackaging_def setCartItems_def save_effect_def)
  have whole:
    "togglePremiumPackaging i (togglePremiumPackaging i (save_effect s)) = save_effect s"
    unfolding togglePremiumPackaging_def setCartItems_settled
    by (rule setCartItems_id_settled) (simp only: o_apply toggle_toggle_items)
  show ?thesis
    by (simp only: items unit_price whole packaging_total_eq simp_thms)
qed

text \<open>One call does change the line: the sample line has premium packaging, and after one
  toggle it contributes nothing.\<close>

lemma toggle_once_sample:
  "map (contribution (Num (2499 / 100))) (cartItems earlier_session) = [Num (4998 / 100)]
   \<and> map (contribution (Num (2499 / 100)))
        (cartItems (togglePremiumPackaging ''c1'' earlier_session)) = [Num 0]"
  by (simp add: earlier_session_eq contribution_def sample_defs)

subsection \<open>A lower bound for the total\<close>

lemma nonneg_add: "js_le (Num 0) a \<Longrightarrow> js_le (Num 0) b \<Longrightarrow> js_le (Num 0) (a + b)"
  unfolding js_le_zero_iff by auto

lemma nonneg_mult: "js_le (Num 0) a \<Longrightarrow> js_le (Num 0) b \<Longrightarrow> js_le (Num 0) (a * b)"
  unfolding js_le_zero_iff by auto

lemma js_le_add: "js_le (Num 0) a \<Longrightarrow> js_le (Num 0) b \<Longrightarrow> js_le a (a + b)"
  unfolding js_le_zero_iff by auto

lemma subtotal_nonneg:
  "\<forall>item\<in>set items. js_le (Num 0) (price item) \<and> js_le (Num 0) (quantity item) \<Longrightarrow>
   js_le (Num 0) (subtotal_of items)"
  unfolding subtotal_of_def
  by (induction items) (simp_all add: nonneg_add nonneg_mult)

lemma packaging_nonneg:
  "js_le (Num 0) u \<Longrightarrow> \<forall>item\<in>set items. js_le (Num 0) (quantity item) \<Longrightarrow>
   js_le (Num 0) (packaging_of u items)"
  unfolding packaging_of_def
  by (induction items) (simp_all add: nonneg_add nonneg_mult)

text \<open>
  C8. When the unit prices, the quantities, the tax rate, the shipping cost and the premium
  pack price are all non-negative, the total is at least subtotal + shipping, the subtotal
  being the sum of price * quantity over the line items; the tax and the packaging total
  are non-negative.
\<close>

theorem total_lower_bound:
  assumes "\<forall>item\<in>set (cartItems s).
             js_le (Num 0) (price item) \<and> js_le (Num 0) (quantity item)"
    and "js_le (Num 0) (taxRate s)" and "js_le (Num 0) (shipping s)"
    and "js_le (Num 0) (premiumPackPrice s)"
  shows "js_le (cartSubtotal (save_effect s) + shipping s) (calculateTotal (save_effect s))
         \<and> cartSubtotal (save_effect s) = subtotal_of (cartItems s)
         \<and> js_le (Num 0) (getTaxAmount (save_effect s))
         \<and> js_le (Num 0) (calculatePremiumPackagingTotal (save_effect s))"
proof -
  let ?base = "subtotal_of (cartItems s) + shipping s"
  let ?pack = "packaging_of (premiumPackPrice s) (cartItems s)"
  have sub: "js_le (Num 0) (subtotal_of (cartItems s))"
    using assms(1) by (rule subtotal_nonneg)
  have pack: "js_le (Num 0) ?pack"
    using assms(1,4) by (intro packaging_nonneg) auto
  have base: "js_le (Num 0) ?base"
    using sub assms(3) by (rule nonneg_add)
  have tax: "js_le (Num 0) (?base * taxRate s)"
    using base assms(2) by (rule nonneg_mult)
  have "js_le ?base (?base + (?pack + ?base * taxRate s))"
    using base nonneg_add[OF pack tax] by (rule js_le_add)
  then have bound: "js_le ?base (?base + ?pack + ?base * taxRate s)"
    by (simp only: add.assoc)
  show ?thesis
    using bound pack tax
    by (simp add: calculateTotal_def getTaxAmount_def packaging_total_eq
        cartSubtotal_save_effect cartItems_save_effect params_save_effect)
qed

text \<open>C8 on the sample session: 9.98 + 12.99 = 22.97 is below the total 75.9361.\<close>

theorem total_lower_bound_witness:
  "(\<forall>item\<in>set (cartItems earlier_session).
      js_le (Num 0) (price item) \<and> js_le (Num 0) (quantity item)) = True
   \<and> js_le (Num 0) (taxRate earlier_session) \<and> js_le (Num 0) (shipping earlier_session)
   \<and> js_le (Num 0) (premiumPackPrice earlier_session)
   \<and> save_effect earlier_session = earlier_session
   \<and> cartSubtotal earlier_session + shipping earlier_session = Num (2297 / 100)
   \<and> calculateTotal earlier_session = Num (759361 / 10000)
   \<and> js_le (cartSubtotal earlier_session + shipping earlier_session)
        (calculateTotal earlier_session)"
  using total_lower_bound[of earlier_session]
  by (simp add: earlier_session_eq sample_defs calculateTotal_def getTaxAmount_def
      packaging_total_eq packaging_of_def subtotal_of_def)

subsection \<open>The tax rate\<close>

lemma taxRate_setCartItems: "taxRate (setCartItems f s) = taxRate s"
  by (simp add: setCartItems_def save_effect_def)

lemma taxRate_dispatch: "taxRate (dispatch a s) = taxRate s"
  by (cases a)
     (simp_all add: addToCart_def updateQuantity_def togglePremiumPackaging_def
        removeFromCart_def clearCart_def updateShipping_def updatePremiumPackPrice_def
        taxRate_setCartItems)

lemma taxRate_run: "taxRate (run acts s) = taxRate s"
  unfolding run_def by (induction acts arbitrary: s) (simp_all add: taxRate_dispatch)

lemma taxRate_mount: "mount storage = Mounted s \<Longrightarrow> taxRate s = Num (13 / 100)"
  by (auto simp: mount_def Let_def initial_state_def save_effect_def setCartItems_def
      split: sum.splits option.splits)

text \<open>
  C10. In every state that a session reaches from a mounted provider, by any sequence of
  the seven mutators of the context value, the tax rate is 0.13, and so the tax is
  (subtotal + shipping) * 0.13; none of the mutators writes \<open>taxRate\<close>.
\<close>

theorem taxRate_constant:
  assumes "mount storage = Mounted s0"
  shows "taxRate (run acts s0) = Num (13 / 100)
         \<and> getTaxAmount (run acts s0)
           = (cartSubtotal (run acts s0) + shipping (run acts s0)) * Num (13 / 100)
         \<and> calculateTotal (run acts s0)
           = cartSubtotal (run acts s0) + shipping (run acts s0)
             + calculatePremiumPackagingTotal (run acts s0)
             + (cartSubtotal (run acts s0) + shipping (run acts s0)) * Num (13 / 100)"
proof -
  have "taxRate (run acts s0) = Num (13 / 100)"
    using taxRate_mount[OF assms] by (simp only: taxRate_run)
  then show ?thesis
    by (simp only: getTaxAmount_def calculateTotal_def Let_def simp_thms)
qed

text \<open>C10 on a session that calls both setters of pricing parameters.\<close>

theorem taxRate_constant_witness:
  "mount None = Mounted (initial_state (Some (Json (JArray []))))
   \<and> taxRate (run
        [AddToCart elsa, UpdateShipping (Num (1299 / 100)),
         UpdatePremiumPackPrice (Num (2499 / 100)), UpdateQuantity ''c1'' (Num 4), ClearCart]
        (initial_state (Some (Json (JArray []))))) = Num (13 / 100)"
  using taxRate_constant[of None "initial_state (Some (Json (JArray [])))"
      "[AddToCart elsa, UpdateShipping (Num (1299 / 100)),
         UpdatePremiumPackPrice (Num (2499 / 100)), UpdateQuantity ''c1'' (Num 4), ClearCart]"]
  by (simp add: mount_absent initial_state_def save_effect_def JSON_stringify_def)

subsection \<open>Persisting and rehydrating\<close>








end
